theory Spec2Isabelle
  imports Main "HOL-Library.Word"
begin

unbundle bit_operations_syntax

section \<open>Machine types\<close>

text \<open>
  A C name that starts with two underscores is written with the prefix \<open>uu_\<close>:
  \<^verbatim>\<open>__cr4_set\<close> is \<open>uu_cr4_set\<close>.
\<close>

type_synonym u16 = "16 word"
type_synonym u64 = "64 word"

section \<open>Generation counter\<close>

text \<open>
  Modelled from the spec: \<^verbatim>\<open>atomic64_inc_return\<close> is declared in linux/atomic.h, which
  is not part of the source; "atomically increments and returns the address space's
  counter".  The counter is a 64-bit cell, so the addition wraps.  The result is the pair
  (returned value, new content of the cell); the read-modify-write is one indivisible step.
\<close>

definition atomic64_inc_return :: "u64 \<Rightarrow> u64 \<times> u64" where
  "atomic64_inc_return v = (v + 1, v + 1)"

text \<open>
  The part of \<^verbatim>\<open>struct mm_struct\<close> the header reads: \<^verbatim>\<open>mm->context.tlb_gen\<close> and
  \<^verbatim>\<open>mm_cpumask(mm)\<close>, the set of CPUs that may hold translations of the address space.
\<close>

record mm_struct =
  context_tlb_gen :: u64
  mm_cpumask :: "nat set"

definition inc_mm_tlb_gen :: "mm_struct \<Rightarrow> u64 \<times> mm_struct" where
  "inc_mm_tlb_gen mm =
     (let (r, v) = atomic64_inc_return (context_tlb_gen mm)
      in (r, mm\<lparr>context_tlb_gen := v\<rparr>))"

text \<open>
  \<open>n\<close> successive calls of \<^verbatim>\<open>inc_mm_tlb_gen\<close> on one address space, from whichever
  CPUs: every call is one atomic step on the shared counter, so any interleaving is a
  sequence.  The result lists the returned generations in call order.
\<close>

fun bump_seq :: "nat \<Rightarrow> mm_struct \<Rightarrow> u64 list \<times> mm_struct" where
  "bump_seq 0 mm = ([], mm)"
| "bump_seq (Suc n) mm =
     (let (g, mm') = inc_mm_tlb_gen mm;
          (gs, mm'') = bump_seq n mm'
      in (g # gs, mm''))"

section \<open>Debug assertions\<close>

text \<open>
  Every assertion of the header is identified by the place where it stands.
\<close>

datatype warning =
    WARN_kern_pcid_asid
  | WARN_build_cr3_asid
  | WARN_irqs_enabled

text \<open>
  Modelled from the spec: \<^verbatim>\<open>VM_WARN_ON_ONCE\<close> is defined in linux/mmdebug.h, which is
  not part of the source; "violated preconditions ... are debug-time assertions signaling
  a bug in a caller, not conditions to recover from".  A debug build reports the
  assertion when its condition holds and goes on with the statement that follows; the
  result is the list of the assertions that fired.
\<close>

definition VM_WARN_ON_ONCE :: "warning \<Rightarrow> bool \<Rightarrow> warning list" where
  "VM_WARN_ON_ONCE site cond = (if cond then [site] else [])"

section \<open>Hardware tags\<close>

definition CR3_HW_ASID_BITS :: nat where
  "CR3_HW_ASID_BITS = 12"

definition PTI_CONSUMED_ASID_BITS :: nat where
  "PTI_CONSUMED_ASID_BITS = 0"

definition CR3_AVAIL_ASID_BITS :: nat where
  "CR3_AVAIL_ASID_BITS = CR3_HW_ASID_BITS - PTI_CONSUMED_ASID_BITS"

text \<open>\<^verbatim>\<open>((1 << CR3_AVAIL_ASID_BITS) - 2)\<close>, a C \<^verbatim>\<open>int\<close>.\<close>

definition MAX_ASID_AVAILABLE :: int where
  "MAX_ASID_AVAILABLE = 2 ^ CR3_AVAIL_ASID_BITS - 2"

text \<open>
  \<^verbatim>\<open>asid > MAX_ASID_AVAILABLE\<close> compares after integer promotion, hence on \<open>uint asid\<close>;
  \<^verbatim>\<open>return asid + 1\<close> converts the \<^verbatim>\<open>int\<close> sum back to \<^verbatim>\<open>u16\<close>, which is the 16-bit
  addition.
\<close>

definition kern_pcid :: "u16 \<Rightarrow> warning list \<times> u16" where
  "kern_pcid asid =
     (VM_WARN_ON_ONCE WARN_kern_pcid_asid (uint asid > MAX_ASID_AVAILABLE), asid + 1)"

text \<open>
  The capability bits of the boot CPU that the header tests.  \<^verbatim>\<open>static_cpu_has\<close> and
  \<^verbatim>\<open>boot_cpu_has\<close> (asm/cpufeature.h, not part of the source) both read them; the set
  \<open>caps\<close> of the capabilities present is a parameter of every function that asks.
\<close>

datatype x86_feature = X86_FEATURE_PCID | X86_FEATURE_PGE | X86_FEATURE_INVPCID

definition static_cpu_has :: "x86_feature set \<Rightarrow> x86_feature \<Rightarrow> bool" where
  "static_cpu_has caps f = (f \<in> caps)"

definition boot_cpu_has :: "x86_feature set \<Rightarrow> x86_feature \<Rightarrow> bool" where
  "boot_cpu_has caps f = (f \<in> caps)"

text \<open>
  \<^verbatim>\<open>__sme_pa\<close> (the physical address of the page-table root, with the memory-encryption
  mask) is not part of the source: it is the parameter \<open>sme_pa\<close>.  The \<^verbatim>\<open>u16\<close> tag is
  widened to \<^verbatim>\<open>unsigned long\<close> before the bitwise or.
\<close>

definition build_cr3 ::
  "x86_feature set \<Rightarrow> ('pgd \<Rightarrow> u64) \<Rightarrow> 'pgd \<Rightarrow> u16 \<Rightarrow> warning list \<times> u64" where
  "build_cr3 caps sme_pa pgd asid =
     (if static_cpu_has caps X86_FEATURE_PCID then
        (let (w, pcid) = kern_pcid asid in (w, sme_pa pgd OR ucast pcid))
      else
        (VM_WARN_ON_ONCE WARN_build_cr3_asid (asid \<noteq> 0), sme_pa pgd))"

definition tlb_defer_switch_to_init_mm :: "x86_feature set \<Rightarrow> bool" where
  "tlb_defer_switch_to_init_mm caps = (\<not> static_cpu_has caps X86_FEATURE_PCID)"

section \<open>Per-CPU state\<close>

definition TLB_NR_DYN_ASIDS :: nat where
  "TLB_NR_DYN_ASIDS = 6"

record tlb_context =
  ctx_id :: u64
  tlb_gen :: u64

text \<open>
  \<^verbatim>\<open>struct tlb_context ctxs[TLB_NR_DYN_ASIDS]\<close>: an array whose length is part of its type.
\<close>

typedef ctxs_array = "{xs :: tlb_context list. length xs = TLB_NR_DYN_ASIDS}"
  by (rule exI [of _ "replicate TLB_NR_DYN_ASIDS \<lparr>ctx_id = 0, tlb_gen = 0\<rparr>"]) simp

text \<open>
  \<^verbatim>\<open>ctxs[asid]\<close> as a read and as a write.  C gives no meaning to a subscript outside the
  array: \<open>None\<close>.
\<close>

definition ctxs_read :: "ctxs_array \<Rightarrow> nat \<Rightarrow> tlb_context option" where
  "ctxs_read a asid =
     (if asid < TLB_NR_DYN_ASIDS then Some (Rep_ctxs_array a ! asid) else None)"

definition ctxs_write :: "ctxs_array \<Rightarrow> nat \<Rightarrow> tlb_context \<Rightarrow> ctxs_array option" where
  "ctxs_write a asid c =
     (if asid < TLB_NR_DYN_ASIDS then Some (Abs_ctxs_array ((Rep_ctxs_array a)[asid := c]))
      else None)"

text \<open>\<^verbatim>\<open>struct tlb_state\<close>; the pointer \<^verbatim>\<open>loaded_mm\<close> is the address it holds.\<close>

record tlb_state =
  loaded_mm :: nat
  loaded_mm_asid :: u16
  next_asid :: u16
  is_lazy :: bool
  cr4 :: u64
  ctxs :: ctxs_array

section \<open>The processor\<close>

text \<open>
  One cached translation: the tag it was loaded under, the page it translates and whether
  it is a global translation.
\<close>

record tlb_entry =
  te_pcid :: "12 word"
  te_page :: u64
  te_global :: bool

datatype hw_event = Write_CR3 u64 | Write_CR4 u64 | Invpcid_flush_all

text \<open>
  The calling CPU: its \<^verbatim>\<open>cpu_tlbstate\<close>, the control registers, the translation cache,
  the interrupt flag, the preemption counter, the privileged instructions executed so far
  and the assertions reported so far.
\<close>

record machine =
  cpu_tlbstate :: tlb_state
  hw_cr3 :: u64
  hw_cr4 :: u64
  hw_tlb :: "tlb_entry list"
  irqs_on :: bool
  preempt_count :: nat
  hw_trace :: "hw_event list"
  warnings :: "warning list"

text \<open>
  \<^verbatim>\<open>X86_CR4_PGE\<close>, \<^verbatim>\<open>X86_CR4_PCIDE\<close> and \<^verbatim>\<open>CR3_NOFLUSH\<close> come from
  asm/processor-flags.h, which is not part of the source: bits 7 and 17 of CR4 and bit 63
  of a value written to CR3.
\<close>

definition X86_CR4_PGE_BIT :: nat where
  "X86_CR4_PGE_BIT = 7"

definition X86_CR4_PCIDE_BIT :: nat where
  "X86_CR4_PCIDE_BIT = 17"

definition CR3_NOFLUSH_BIT :: nat where
  "CR3_NOFLUSH_BIT = 63"

definition X86_CR4_PGE :: u64 where
  "X86_CR4_PGE = push_bit X86_CR4_PGE_BIT 1"

text \<open>
  Modelled from the spec: the instructions behind \<^verbatim>\<open>native_write_cr4\<close>,
  \<^verbatim>\<open>native_write_cr3\<close>, \<^verbatim>\<open>__native_read_cr3\<close> (asm/special_insns.h) and
  \<^verbatim>\<open>invpcid_flush_all\<close> (asm/invpcid.h) are not part of the source.  What the processor
  does with its translation cache follows the architecture as the header's comments use
  it ("toggle PGE", "write old PGE again and flush TLBs", "flush the entire current user
  mapping", "flush everything", "we'd end up flushing kernel translations for the current
  ASID but we might fail to flush kernel translations for other cached ASIDs"):
  \<^item> a write to CR4 that changes PGE, or that clears PCIDE, drops every translation;
  \<^item> a write to CR3 drops the translations of one tag that are not global: the tag in
    the low 12 bits of the value when CR4.PCIDE is set, tag 0 otherwise; with CR4.PCIDE
    set and bit 63 of the value set it drops nothing;
  \<^item> \<^verbatim>\<open>invpcid_flush_all\<close> drops every translation.
  Faults of the instructions are not modelled.
\<close>

definition native_write_cr4 :: "u64 \<Rightarrow> machine \<Rightarrow> machine" where
  "native_write_cr4 val m =
     m\<lparr>hw_cr4 := val,
       hw_tlb :=
         (if bit val X86_CR4_PGE_BIT \<noteq> bit (hw_cr4 m) X86_CR4_PGE_BIT
             \<or> (bit (hw_cr4 m) X86_CR4_PCIDE_BIT \<and> \<not> bit val X86_CR4_PCIDE_BIT)
          then [] else hw_tlb m),
       hw_trace := hw_trace m @ [Write_CR4 val]\<rparr>"

definition cr3_keeps :: "u64 \<Rightarrow> u64 \<Rightarrow> tlb_entry \<Rightarrow> bool" where
  "cr3_keeps cr4v val e =
     (if bit cr4v X86_CR4_PCIDE_BIT then
        bit val CR3_NOFLUSH_BIT \<or> te_global e \<or> te_pcid e \<noteq> ucast val
      else te_global e \<or> te_pcid e \<noteq> 0)"

definition native_write_cr3 :: "u64 \<Rightarrow> machine \<Rightarrow> machine" where
  "native_write_cr3 val m =
     m\<lparr>hw_cr3 := val,
       hw_tlb := filter (cr3_keeps (hw_cr4 m) val) (hw_tlb m),
       hw_trace := hw_trace m @ [Write_CR3 val]\<rparr>"

definition uu_native_read_cr3 :: "machine \<Rightarrow> u64" where
  "uu_native_read_cr3 m = hw_cr3 m"

definition invpcid_flush_all :: "machine \<Rightarrow> machine" where
  "invpcid_flush_all m = m\<lparr>hw_tlb := [], hw_trace := hw_trace m @ [Invpcid_flush_all]\<rparr>"

text \<open>
  Interrupt and preemption control (linux/irqflags.h, linux/preempt.h and
  linux/lockdep.h, not part of the source): \<^verbatim>\<open>local_irq_save\<close> hands back the interrupt
  flag and clears it, \<^verbatim>\<open>local_irq_restore\<close> puts it back; \<^verbatim>\<open>preempt_disable\<close> and
  \<^verbatim>\<open>preempt_enable\<close> count; \<^verbatim>\<open>lockdep_assert_irqs_disabled\<close> reports when interrupts
  are on.
\<close>

definition local_irq_save :: "machine \<Rightarrow> bool \<times> machine" where
  "local_irq_save m = (irqs_on m, m\<lparr>irqs_on := False\<rparr>)"

definition local_irq_restore :: "bool \<Rightarrow> machine \<Rightarrow> machine" where
  "local_irq_restore flags m = m\<lparr>irqs_on := flags\<rparr>"

definition preempt_disable :: "machine \<Rightarrow> machine" where
  "preempt_disable m = m\<lparr>preempt_count := preempt_count m + 1\<rparr>"

definition preempt_enable :: "machine \<Rightarrow> machine" where
  "preempt_enable m = m\<lparr>preempt_count := preempt_count m - 1\<rparr>"

definition lockdep_assert_irqs_disabled :: "machine \<Rightarrow> machine" where
  "lockdep_assert_irqs_disabled m =
     m\<lparr>warnings := warnings m @ VM_WARN_ON_ONCE WARN_irqs_enabled (irqs_on m)\<rparr>"

section \<open>The CR4 shadow\<close>

definition this_cpu_write_cr4 :: "u64 \<Rightarrow> machine \<Rightarrow> machine" where
  "this_cpu_write_cr4 val m = m\<lparr>cpu_tlbstate := (cpu_tlbstate m)\<lparr>cr4 := val\<rparr>\<rparr>"

definition cr4_read_shadow :: "machine \<Rightarrow> u64" where
  "cr4_read_shadow m = cr4 (cpu_tlbstate m)"

text \<open>Without \<^verbatim>\<open>CONFIG_PARAVIRT\<close>, \<^verbatim>\<open>__write_cr4\<close> is \<^verbatim>\<open>native_write_cr4\<close>.\<close>

definition uu_cr4_set :: "u64 \<Rightarrow> machine \<Rightarrow> machine" where
  "uu_cr4_set val m =
     native_write_cr4 val (this_cpu_write_cr4 val (lockdep_assert_irqs_disabled m))"

definition cr4_set_bits :: "u64 \<Rightarrow> machine \<Rightarrow> machine" where
  "cr4_set_bits msk m =
     (let (flags, m1) = local_irq_save m;
          cr4v = cr4_read_shadow m1;
          m2 = (if (cr4v OR msk) \<noteq> cr4v then uu_cr4_set (cr4v OR msk) m1 else m1)
      in local_irq_restore flags m2)"

definition cr4_clear_bits :: "u64 \<Rightarrow> machine \<Rightarrow> machine" where
  "cr4_clear_bits msk m =
     (let (flags, m1) = local_irq_save m;
          cr4v = cr4_read_shadow m1;
          m2 = (if (cr4v AND NOT msk) \<noteq> cr4v then uu_cr4_set (cr4v AND NOT msk) m1 else m1)
      in local_irq_restore flags m2)"

section \<open>Flushes of the calling CPU\<close>

definition uu_native_flush_tlb :: "machine \<Rightarrow> machine" where
  "uu_native_flush_tlb m =
     (let m1 = preempt_disable m;
          m2 = native_write_cr3 (uu_native_read_cr3 m1) m1
      in preempt_enable m2)"

text \<open>
  \<^verbatim>\<open>raw_local_irq_save\<close> and \<^verbatim>\<open>raw_local_irq_restore\<close> act on the interrupt flag as
  \<^verbatim>\<open>local_irq_save\<close> and \<^verbatim>\<open>local_irq_restore\<close> do.
\<close>

definition uu_native_flush_tlb_global :: "x86_feature set \<Rightarrow> machine \<Rightarrow> machine" where
  "uu_native_flush_tlb_global caps m =
     (if static_cpu_has caps X86_FEATURE_INVPCID then invpcid_flush_all m
      else
        (let (flags, m1) = local_irq_save m;
             cr4v = cr4 (cpu_tlbstate m1);
             m2 = native_write_cr4 (cr4v XOR X86_CR4_PGE) m1;
             m3 = native_write_cr4 cr4v m2
         in local_irq_restore flags m3))"

text \<open>
  Without \<^verbatim>\<open>CONFIG_PARAVIRT\<close> the header defines \<^verbatim>\<open>__flush_tlb()\<close> as
  \<^verbatim>\<open>__native_flush_tlb()\<close> and \<^verbatim>\<open>__flush_tlb_global()\<close> as
  \<^verbatim>\<open>__native_flush_tlb_global()\<close>; with it they come from asm/paravirt.h, which is not
  part of the source.
\<close>

definition uu_flush_tlb :: "machine \<Rightarrow> machine" where
  "uu_flush_tlb m = uu_native_flush_tlb m"

definition uu_flush_tlb_global :: "x86_feature set \<Rightarrow> machine \<Rightarrow> machine" where
  "uu_flush_tlb_global caps m = uu_native_flush_tlb_global caps m"

definition uu_flush_tlb_all :: "x86_feature set \<Rightarrow> machine \<Rightarrow> machine" where
  "uu_flush_tlb_all caps m =
     (if boot_cpu_has caps X86_FEATURE_PGE then uu_flush_tlb_global caps m
      else uu_flush_tlb m)"

text \<open>
  What the processor guarantees about its translation cache at any moment: with CR4.PGE
  clear no cached translation is global, and with CR4.PCIDE clear every cached
  translation carries tag 0.
\<close>

definition tlb_consistent :: "machine \<Rightarrow> bool" where
  "tlb_consistent m =
     ((bit (hw_cr4 m) X86_CR4_PGE_BIT \<or> list_all (\<lambda>e. \<not> te_global e) (hw_tlb m)) \<and>
      (bit (hw_cr4 m) X86_CR4_PCIDE_BIT \<or> list_all (\<lambda>e. te_pcid e = 0) (hw_tlb m)))"

text \<open>A CR4 bit is set only if the CPU has the capability.\<close>

definition cr4_within_caps :: "x86_feature set \<Rightarrow> machine \<Rightarrow> bool" where
  "cr4_within_caps caps m =
     ((X86_FEATURE_PGE \<in> caps \<or> \<not> bit (hw_cr4 m) X86_CR4_PGE_BIT) \<and>
      (X86_FEATURE_PCID \<in> caps \<or> \<not> bit (hw_cr4 m) X86_CR4_PCIDE_BIT))"

text \<open>
  The configuration rule of the comment in \<^verbatim>\<open>__flush_tlb_all\<close>: "!PGE -> !PCID
  (setup_pcid())".
\<close>

definition pcid_needs_pge :: "x86_feature set \<Rightarrow> bool" where
  "pcid_needs_pge caps = (X86_FEATURE_PGE \<in> caps \<or> X86_FEATURE_PCID \<notin> caps)"

section \<open>Flush requests\<close>

text \<open>
  \<^verbatim>\<open>PAGE_SIZE\<close> (asm/page_types.h) and \<^verbatim>\<open>VM_NONE\<close> (linux/mm.h) are not part of the
  source: 4096 and 0.
\<close>

definition PAGE_SHIFT :: nat where
  "PAGE_SHIFT = 12"

definition PAGE_SIZE :: u64 where
  "PAGE_SIZE = push_bit PAGE_SHIFT 1"

definition VM_NONE :: u64 where
  "VM_NONE = 0"

text \<open>\<^verbatim>\<open>-1UL\<close>.\<close>

definition TLB_FLUSH_ALL :: u64 where
  "TLB_FLUSH_ALL = - 1"

text \<open>An address space is named by the address of its \<^verbatim>\<open>mm_struct\<close>.\<close>

type_synonym mm_ptr = nat

record vm_area_struct =
  vm_mm :: mm_ptr
  vm_flags :: u64

text \<open>
  \<^verbatim>\<open>flush_tlb_mm_range\<close> is declared \<^verbatim>\<open>extern\<close>; its body is not part of the source.  It
  is the parameter \<open>mm_range\<close>, any action on any state \<open>'s\<close>.
\<close>

type_synonym 's flush_tlb_mm_range = "mm_ptr \<Rightarrow> u64 \<Rightarrow> u64 \<Rightarrow> u64 \<Rightarrow> 's \<Rightarrow> 's"

definition flush_tlb_mm :: "'s flush_tlb_mm_range \<Rightarrow> mm_ptr \<Rightarrow> 's \<Rightarrow> 's" where
  "flush_tlb_mm mm_range mm = mm_range mm 0 TLB_FLUSH_ALL 0"

definition flush_tlb_range ::
  "'s flush_tlb_mm_range \<Rightarrow> vm_area_struct \<Rightarrow> u64 \<Rightarrow> u64 \<Rightarrow> 's \<Rightarrow> 's" where
  "flush_tlb_range mm_range vma start end_addr =
     mm_range (vm_mm vma) start end_addr (vm_flags vma)"

definition flush_tlb_page :: "'s flush_tlb_mm_range \<Rightarrow> vm_area_struct \<Rightarrow> u64 \<Rightarrow> 's \<Rightarrow> 's" where
  "flush_tlb_page mm_range vma a = mm_range (vm_mm vma) a (a + PAGE_SIZE) VM_NONE"

text \<open>
  \<^verbatim>\<open>struct flush_tlb_info\<close>; \<^verbatim>\<open>.mm\<close> may be \<^verbatim>\<open>NULL\<close>.  The field \<^verbatim>\<open>end\<close> is \<open>fti_end\<close>.
\<close>

record flush_tlb_info =
  fti_mm :: "mm_ptr option"
  fti_start :: u64
  fti_end :: u64
  new_tlb_gen :: u64

datatype flush_kind = Full_single_mm | Partial_single_mm | Full_all_mms

text \<open>
  Modelled from the spec: the code that reads a \<^verbatim>\<open>flush_tlb_info\<close> is in
  \<^verbatim>\<open>flush_tlb_mm_range\<close> and its callees, not part of the source; "an address range
  [start, end) (sentinel value \<Rightarrow> whole-address-space flush)", and absent target "\<Rightarrow>
  global flush across all address spaces".  The comment in \<^verbatim>\<open>struct flush_tlb_info\<close>
  lists the same three kinds.
\<close>

definition flush_kind_of :: "flush_tlb_info \<Rightarrow> flush_kind" where
  "flush_kind_of info =
     (case fti_mm info of
        None \<Rightarrow> Full_all_mms
      | Some _ \<Rightarrow> if fti_end info = TLB_FLUSH_ALL then Full_single_mm else Partial_single_mm)"

section \<open>Batched unmap\<close>

text \<open>
  \<^verbatim>\<open>struct arch_tlbflush_unmap_batch\<close> (asm/tlbbatch.h) holds one CPU mask.  A CPU mask is
  the set of the CPU numbers whose bit is set, and \<^verbatim>\<open>cpumask_or(dst, a, b)\<close>
  (linux/cpumask.h) stores the union of \<open>a\<close> and \<open>b\<close>.
\<close>

record arch_tlbflush_unmap_batch =
  cpumask :: "nat set"

definition cpumask_or :: "nat set \<Rightarrow> nat set \<Rightarrow> nat set" where
  "cpumask_or a b = a \<union> b"

text \<open>
  What a bulk unmap can touch: the address spaces (by address), the batch, the calling
  CPU, and the combined dispatches sent so far, each with its target CPUs.
\<close>

record unmap_world =
  mms :: "mm_ptr \<Rightarrow> mm_struct"
  batch :: arch_tlbflush_unmap_batch
  this_cpu :: machine
  dispatched :: "nat set list"

definition arch_tlbbatch_add_mm :: "mm_ptr \<Rightarrow> unmap_world \<Rightarrow> unmap_world" where
  "arch_tlbbatch_add_mm mm w =
     (let (_, mm') = inc_mm_tlb_gen (mms w mm);
          w1 = w\<lparr>mms := (mms w)(mm := mm')\<rparr>
      in w1\<lparr>batch := (batch w1)
               \<lparr>cpumask := cpumask_or (cpumask (batch w1)) (mm_cpumask (mms w1 mm))\<rparr>\<rparr>)"

text \<open>
  Modelled from the spec: \<^verbatim>\<open>arch_tlbbatch_flush\<close> is declared \<^verbatim>\<open>extern\<close>; its body is not
  part of the source; "\<open>batch_commit()\<close> performs one combined dispatch" to the
  accumulated targets.
\<close>

definition arch_tlbbatch_flush :: "unmap_world \<Rightarrow> unmap_world" where
  "arch_tlbbatch_flush w = w\<lparr>dispatched := dispatched w @ [cpumask (batch w)]\<rparr>"

text \<open>Successive \<^verbatim>\<open>arch_tlbbatch_add_mm\<close> calls on one batch, in list order.\<close>

fun batch_adds :: "mm_ptr list \<Rightarrow> unmap_world \<Rightarrow> unmap_world" where
  "batch_adds [] w = w"
| "batch_adds (mm # rest) w = batch_adds rest (arch_tlbbatch_add_mm mm w)"

section \<open>The flushes in the words of the specification\<close>

text \<open>
  The single-page flush as the specification words it: the general ranged flush over
  exactly the one-page range \<open>[a, a + 4096)\<close> of the address space, with no flags.
\<close>

definition flush_page_spec :: "'s flush_tlb_mm_range \<Rightarrow> mm_ptr \<Rightarrow> u64 \<Rightarrow> 's \<Rightarrow> 's" where
  "flush_page_spec ranged A a = ranged A a (a + 4096) 0"

text \<open>
  The full flush as the specification words it: the ranged flush from 0 whose end is the
  whole-address-space sentinel, the all-ones address.
\<close>

definition flush_address_space_spec :: "'s flush_tlb_mm_range \<Rightarrow> mm_ptr \<Rightarrow> 's \<Rightarrow> 's" where
  "flush_address_space_spec ranged A = ranged A 0 0xFFFFFFFFFFFFFFFF 0"

section \<open>Sample states\<close>

text \<open>Concrete states on which the theorems below are evaluated.\<close>

definition sample_tlb_state :: tlb_state where
  "sample_tlb_state =
     \<lparr>loaded_mm = 0, loaded_mm_asid = 0, next_asid = 1, is_lazy = False, cr4 = 0x20,
      ctxs = Abs_ctxs_array (replicate 6 \<lparr>ctx_id = 0, tlb_gen = 0\<rparr>)\<rparr>"

text \<open>A CPU without PGE and PCID: CR4 holds PAE only, two translations under tag 0.\<close>

definition sample_machine :: machine where
  "sample_machine =
     \<lparr>cpu_tlbstate = sample_tlb_state, hw_cr3 = 0x1000, hw_cr4 = 0x20,
      hw_tlb = [\<lparr>te_pcid = 0, te_page = 0x400000, te_global = False\<rparr>,
                \<lparr>te_pcid = 0, te_page = 0x7F0000, te_global = False\<rparr>],
      irqs_on = True, preempt_count = 0, hw_trace = [], warnings = []\<rparr>"

text \<open>
  A CPU with PGE and PCID enabled in CR4 (PAE, PGE and PCIDE), running under tag 1, with a
  global translation, one of tag 1 and one of tag 2.
\<close>

definition sample_machine_pcid :: machine where
  "sample_machine_pcid =
     \<lparr>cpu_tlbstate = sample_tlb_state\<lparr>cr4 := 0x200A0\<rparr>, hw_cr3 = 0x1001, hw_cr4 = 0x200A0,
      hw_tlb = [\<lparr>te_pcid = 1, te_page = 0xFFFF800000000000, te_global = True\<rparr>,
                \<lparr>te_pcid = 1, te_page = 0x400000, te_global = False\<rparr>,
                \<lparr>te_pcid = 2, te_page = 0x400000, te_global = False\<rparr>],
      irqs_on = True, preempt_count = 0, hw_trace = [], warnings = []\<rparr>"

text \<open>
  The same CPU with PCID enabled but PGE off, which the configuration rule excludes.
\<close>

definition sample_machine_pcid_no_pge :: machine where
  "sample_machine_pcid_no_pge =
     \<lparr>cpu_tlbstate = sample_tlb_state\<lparr>cr4 := 0x20020\<rparr>, hw_cr3 = 0x1001, hw_cr4 = 0x20020,
      hw_tlb = [\<lparr>te_pcid = 1, te_page = 0x400000, te_global = False\<rparr>,
                \<lparr>te_pcid = 2, te_page = 0x400000, te_global = False\<rparr>],
      irqs_on = True, preempt_count = 0, hw_trace = [], warnings = []\<rparr>"

text \<open>
  Address spaces: the one at address 4 at generation 1 on CPUs 0 and 1, every other
  one at generation 7 on CPU 2; an empty batch.
\<close>

definition sample_world :: unmap_world where
  "sample_world =
     \<lparr>mms = (\<lambda>p. if p = 4 then \<lparr>context_tlb_gen = 1, mm_cpumask = {0, 1}\<rparr>
                  else \<lparr>context_tlb_gen = 7, mm_cpumask = {2}\<rparr>),
      batch = \<lparr>cpumask = {}\<rparr>, this_cpu = sample_machine, dispatched = []\<rparr>"

section \<open>Properties of the generation counter\<close>

lemma inc_mm_tlb_gen_eq:
  "inc_mm_tlb_gen mm =
     (context_tlb_gen mm + 1, mm\<lparr>context_tlb_gen := context_tlb_gen mm + 1\<rparr>)"
  by (simp add: inc_mm_tlb_gen_def atomic64_inc_return_def)

lemma bump_seq_fst:
  "fst (bump_seq n mm) = map (\<lambda>i. context_tlb_gen mm + of_nat (Suc i)) [0..<n]"
proof (induction n arbitrary: mm)
  case 0 show ?case by simp
next
  case (Suc n)
  let ?mm' = "mm\<lparr>context_tlb_gen := context_tlb_gen mm + 1\<rparr>"
  have "fst (bump_seq (Suc n) mm) = (context_tlb_gen mm + 1) # fst (bump_seq n ?mm')"
    by (simp add: inc_mm_tlb_gen_eq split: prod.splits)
  also have "\<dots> = map (\<lambda>i. context_tlb_gen mm + of_nat (Suc i)) (0 # map Suc [0..<n])"
    by (simp add: Suc.IH add.assoc)
  also have "0 # map Suc [0..<n] = [0..<Suc n]"
    by (simp add: upt_conv_Cons map_Suc_upt del: upt_Suc)
  finally show ?case .
qed

lemma bump_seq_snd:
  "snd (bump_seq n mm) = mm\<lparr>context_tlb_gen := context_tlb_gen mm + of_nat n\<rparr>"
proof (induction n arbitrary: mm)
  case 0 show ?case by simp
next
  case (Suc n)
  have "snd (bump_seq (Suc n) mm) =
      snd (bump_seq n (mm\<lparr>context_tlb_gen := context_tlb_gen mm + 1\<rparr>))"
    by (simp add: inc_mm_tlb_gen_eq split: prod.splits)
  then show ?case by (simp add: Suc.IH add.assoc)
qed

lemma unat_add_no_wrap:
  fixes g :: u64
  assumes "unat g + k < 2 ^ 64"
  shows "unat (g + of_nat k) = unat g + k"
  using assms by (simp add: unat_word_ariths unat_of_nat take_bit_nat_eq_self_iff)

text \<open>
  C1, as stated: for every address space and any sequence of \<^verbatim>\<open>inc_mm_tlb_gen\<close> calls the
  returned generations are strictly increasing and the stored generation never decreases.
  The counter is a 64-bit cell, so this fails where it wraps: from the stored generation
  \<open>2^64 - 1\<close> one call stores 0, and from \<open>2^64 - 2\<close> two calls return \<open>2^64 - 1\<close> and
  then 0.
\<close>

theorem inc_mm_tlb_gen_wraps:
  "inc_mm_tlb_gen \<lparr>context_tlb_gen = - 1, mm_cpumask = {}\<rparr>
     = (0, \<lparr>context_tlb_gen = 0, mm_cpumask = {}\<rparr>) \<and>
   context_tlb_gen (snd (inc_mm_tlb_gen \<lparr>context_tlb_gen = - 1, mm_cpumask = {}\<rparr>))
     < context_tlb_gen \<lparr>context_tlb_gen = - 1, mm_cpumask = {}\<rparr> \<and>
   fst (bump_seq 2 \<lparr>context_tlb_gen = - 2, mm_cpumask = {}\<rparr>) = [- 1, 0] \<and>
   \<not> sorted_wrt (<) (fst (bump_seq 2 \<lparr>context_tlb_gen = - 2, mm_cpumask = {}\<rparr>))"
  by (simp add: inc_mm_tlb_gen_def atomic64_inc_return_def numeral_2_eq_2 word_gt_0)

text \<open>
  C1, amended: \<^verbatim>\<open>inc_mm_tlb_gen\<close> adds one to the stored 64-bit generation (modulo
  \<open>2^64\<close>) in one step and returns the value it stored.  As long as the counter does not
  wrap (the stored generation plus the number of calls stays below \<open>2^64\<close>), the \<open>n\<close>
  calls return the next \<open>n\<close> generations in order: strictly increasing, each above the
  starting generation, and the stored generation does not decrease.
\<close>

theorem inc_mm_tlb_gen_increasing:
  "inc_mm_tlb_gen mm = (context_tlb_gen mm + 1, mm\<lparr>context_tlb_gen := context_tlb_gen mm + 1\<rparr>) \<and>
   (unat (context_tlb_gen mm) + n < 2 ^ 64 \<longrightarrow>
      map unat (fst (bump_seq n mm)) = map (\<lambda>i. unat (context_tlb_gen mm) + Suc i) [0..<n] \<and>
      sorted_wrt (<) (fst (bump_seq n mm)) \<and>
      (\<forall>g \<in> set (fst (bump_seq n mm)). context_tlb_gen mm < g) \<and>
      context_tlb_gen mm \<le> context_tlb_gen (snd (bump_seq n mm)) \<and>
      unat (context_tlb_gen (snd (bump_seq n mm))) = unat (context_tlb_gen mm) + n)"
proof (intro conjI impI)
  show "inc_mm_tlb_gen mm = (context_tlb_gen mm + 1, mm\<lparr>context_tlb_gen := context_tlb_gen mm + 1\<rparr>)"
    by (rule inc_mm_tlb_gen_eq)
next
  assume nw: "unat (context_tlb_gen mm) + n < 2 ^ 64"
  let ?g = "context_tlb_gen mm"
  have un: "unat (?g + of_nat k) = unat ?g + k" if "k \<le> n" for k
    using that nw by (intro unat_add_no_wrap) simp
  show m: "map unat (fst (bump_seq n mm)) = map (\<lambda>i. unat ?g + Suc i) [0..<n]"
    by (simp add: bump_seq_fst un del: of_nat_Suc)
  have "sorted_wrt (<) (map unat (fst (bump_seq n mm)))"
    unfolding m by (simp add: sorted_wrt_map sorted_wrt_iff_nth_less)
  then show "sorted_wrt (<) (fst (bump_seq n mm))"
    by (simp add: sorted_wrt_map word_less_nat_alt [abs_def])
  show "\<forall>g \<in> set (fst (bump_seq n mm)). ?g < g"
  proof
    fix g assume "g \<in> set (fst (bump_seq n mm))"
    then have "unat g \<in> set (map unat (fst (bump_seq n mm)))" by simp
    then show "?g < g" unfolding m by (auto simp: word_less_nat_alt)
  qed
  show u: "unat (context_tlb_gen (snd (bump_seq n mm))) = unat ?g + n"
    by (simp add: bump_seq_snd un)
  show "?g \<le> context_tlb_gen (snd (bump_seq n mm))"
    using u by (simp add: word_le_nat_alt)
qed

theorem inc_mm_tlb_gen_increasing_witness:
  "unat (context_tlb_gen \<lparr>context_tlb_gen = 5, mm_cpumask = {0, 1}\<rparr>) + 3 < 2 ^ 64 \<and>
   fst (bump_seq 3 \<lparr>context_tlb_gen = 5, mm_cpumask = {0, 1}\<rparr>) = [6, 7, 8] \<and>
   sorted_wrt (<) (fst (bump_seq 3 \<lparr>context_tlb_gen = 5, mm_cpumask = {0, 1}\<rparr>)) \<and>
   context_tlb_gen (snd (bump_seq 3 \<lparr>context_tlb_gen = 5, mm_cpumask = {0, 1}\<rparr>)) = 8"
  using inc_mm_tlb_gen_increasing [of "\<lparr>context_tlb_gen = 5, mm_cpumask = {0, 1}\<rparr>" 3]
  by (simp add: inc_mm_tlb_gen_def atomic64_inc_return_def numeral_3_eq_3)

section \<open>Properties of the hardware tags\<close>

lemma MAX_ASID_AVAILABLE_eq: "MAX_ASID_AVAILABLE = 4094"
  by (simp add: MAX_ASID_AVAILABLE_def CR3_AVAIL_ASID_BITS_def CR3_HW_ASID_BITS_def
      PTI_CONSUMED_ASID_BITS_def)

lemma uint_asid_succ:
  fixes asid :: u16
  assumes "uint asid \<le> 4094"
  shows "uint (asid + 1) = uint asid + 1"
proof -
  have "uint asid + 1 < 2 ^ 16" using assms by simp
  then show ?thesis
    by (simp add: uint_word_ariths take_bit_int_eq_self_iff)
qed

text \<open>
  C3: for every software ASID within the valid range (\<open>asid \<le> MAX_ASID_AVAILABLE\<close>) the
  tag of \<^verbatim>\<open>kern_pcid\<close> is \<open>asid + 1\<close>, without wrap-around, never 0 and within the 12 bits
  of the hardware tag; no assertion fires.  In particular slot 0 gets tag 1, not the
  reserved tag 0.  An ASID above the range fires the assertion of \<^verbatim>\<open>kern_pcid\<close> and the
  function still returns \<open>asid + 1\<close>: there is no recovery path.
\<close>

theorem kern_pcid_tag:
  "(uint asid \<le> MAX_ASID_AVAILABLE \<longrightarrow>
      kern_pcid asid = ([], asid + 1) \<and>
      uint (snd (kern_pcid asid)) = uint asid + 1 \<and>
      snd (kern_pcid asid) \<noteq> 0 \<and>
      uint (snd (kern_pcid asid)) < 2 ^ CR3_HW_ASID_BITS) \<and>
   (MAX_ASID_AVAILABLE < uint asid \<longrightarrow>
      kern_pcid asid = ([WARN_kern_pcid_asid], asid + 1)) \<and>
   kern_pcid 0 = ([], 1)"
proof (intro conjI impI)
  assume a: "uint asid \<le> MAX_ASID_AVAILABLE"
  then have b: "uint asid \<le> 4094" by (simp add: MAX_ASID_AVAILABLE_eq)
  show "kern_pcid asid = ([], asid + 1)"
    using a by (simp add: kern_pcid_def VM_WARN_ON_ONCE_def)
  show u: "uint (snd (kern_pcid asid)) = uint asid + 1"
    using b by (simp add: kern_pcid_def uint_asid_succ)
  show "snd (kern_pcid asid) \<noteq> 0"
  proof
    assume "snd (kern_pcid asid) = 0"
    then have "uint (snd (kern_pcid asid)) = 0" by simp
    moreover have "0 \<le> uint asid" by simp
    ultimately show False using u by arith
  qed
  show "uint (snd (kern_pcid asid)) < 2 ^ CR3_HW_ASID_BITS"
    using u b by (simp add: CR3_HW_ASID_BITS_def)
next
  assume "MAX_ASID_AVAILABLE < uint asid"
  then show "kern_pcid asid = ([WARN_kern_pcid_asid], asid + 1)"
    by (simp add: kern_pcid_def VM_WARN_ON_ONCE_def)
next
  show "kern_pcid 0 = ([], 1)"
    by (simp add: kern_pcid_def VM_WARN_ON_ONCE_def MAX_ASID_AVAILABLE_eq)
qed

theorem kern_pcid_tag_witness:
  "uint (5 :: u16) \<le> MAX_ASID_AVAILABLE \<and> kern_pcid 5 = ([], 6) \<and>
   uint (4094 :: u16) \<le> MAX_ASID_AVAILABLE \<and> kern_pcid 4094 = ([], 4095) \<and>
   MAX_ASID_AVAILABLE < uint (4095 :: u16) \<and> kern_pcid 4095 = ([WARN_kern_pcid_asid], 4096) \<and>
   MAX_ASID_AVAILABLE < uint (0xFFFF :: u16) \<and> kern_pcid 0xFFFF = ([WARN_kern_pcid_asid], 0)"
  using kern_pcid_tag [of 5] kern_pcid_tag [of 4094] kern_pcid_tag [of 4095]
    kern_pcid_tag [of "0xFFFF"]
  by (simp add: MAX_ASID_AVAILABLE_eq)

text \<open>
  C4: \<^verbatim>\<open>tlb_defer_switch_to_init_mm\<close> returns true exactly when the CPU has no PCID.
\<close>

theorem tlb_defer_switch_iff_no_pcid:
  "tlb_defer_switch_to_init_mm caps = (X86_FEATURE_PCID \<notin> caps)"
  by (simp add: tlb_defer_switch_to_init_mm_def static_cpu_has_def)

lemma tag_bits_low:
  fixes p :: u16
  assumes "uint p < 2 ^ 12"
  shows "take_bit 12 (ucast p :: u64) = ucast p" "drop_bit 12 (ucast p :: u64) = 0"
proof -
  have "uint (ucast p :: u64) = uint p"
    by (simp add: uint_up_ucast is_up)
  then have "(ucast p :: u64) < 2 ^ 12"
    using assms by (simp add: word_less_def)
  then have "(ucast p :: u64) AND mask 12 = ucast p"
    by (rule less_mask_eq)
  then show t: "take_bit 12 (ucast p :: u64) = ucast p"
    by (simp add: take_bit_eq_mask)
  then show "drop_bit 12 (ucast p :: u64) = 0"
    by (simp add: take_bit_eq_self_iff_drop_bit_eq_0)
qed

text \<open>
  C5: without PCID \<^verbatim>\<open>build_cr3\<close> returns the bare page-table root, and its assertion
  fires for every ASID other than 0.  With PCID it returns the root or-ed with
  \<^verbatim>\<open>kern_pcid(asid)\<close>; for a page-aligned root and an ASID in range the low 12 bits of
  the result are the tag \<open>asid + 1\<close> and the bits above are those of the root.
\<close>

theorem build_cr3_tag:
  "(X86_FEATURE_PCID \<notin> caps \<longrightarrow>
      build_cr3 caps sme_pa pgd asid =
        (if asid = 0 then [] else [WARN_build_cr3_asid], sme_pa pgd)) \<and>
   (X86_FEATURE_PCID \<in> caps \<longrightarrow>
      build_cr3 caps sme_pa pgd asid =
        (fst (kern_pcid asid), sme_pa pgd OR ucast (snd (kern_pcid asid))) \<and>
      (uint asid \<le> MAX_ASID_AVAILABLE \<and> take_bit 12 (sme_pa pgd) = 0 \<longrightarrow>
         fst (build_cr3 caps sme_pa pgd asid) = [] \<and>
         take_bit 12 (snd (build_cr3 caps sme_pa pgd asid)) = ucast (asid + 1) \<and>
         drop_bit 12 (snd (build_cr3 caps sme_pa pgd asid)) = drop_bit 12 (sme_pa pgd)))"
proof (intro conjI impI)
  assume "X86_FEATURE_PCID \<notin> caps"
  then show "build_cr3 caps sme_pa pgd asid =
      (if asid = 0 then [] else [WARN_build_cr3_asid], sme_pa pgd)"
    by (simp add: build_cr3_def static_cpu_has_def VM_WARN_ON_ONCE_def)
next
  assume c: "X86_FEATURE_PCID \<in> caps"
  then show e: "build_cr3 caps sme_pa pgd asid =
      (fst (kern_pcid asid), sme_pa pgd OR ucast (snd (kern_pcid asid)))"
    by (simp add: build_cr3_def static_cpu_has_def split: prod.splits)
  assume h: "uint asid \<le> MAX_ASID_AVAILABLE \<and> take_bit 12 (sme_pa pgd) = 0"
  then have k: "kern_pcid asid = ([], asid + 1)"
    by (simp add: kern_pcid_def VM_WARN_ON_ONCE_def)
  have "uint (asid + 1) = uint asid + 1"
    using h by (intro uint_asid_succ) (simp add: MAX_ASID_AVAILABLE_eq)
  then have "uint (asid + 1) < 2 ^ 12"
    using h by (simp add: MAX_ASID_AVAILABLE_eq)
  note low = tag_bits_low [OF this]
  show "fst (build_cr3 caps sme_pa pgd asid) = []"
    by (simp add: e k)
  show "take_bit 12 (snd (build_cr3 caps sme_pa pgd asid)) = ucast (asid + 1)"
    using h by (simp add: e k take_bit_or low)
  show "drop_bit 12 (snd (build_cr3 caps sme_pa pgd asid)) = drop_bit 12 (sme_pa pgd)"
    by (simp add: e k drop_bit_or low)
qed

theorem build_cr3_tag_witness:
  "X86_FEATURE_PCID \<notin> ({} :: x86_feature set) \<and>
   build_cr3 {} (\<lambda>pgd. pgd) (0x1000 :: u64) 0 = ([], 0x1000) \<and>
   build_cr3 {} (\<lambda>pgd. pgd) (0x1000 :: u64) 3 = ([WARN_build_cr3_asid], 0x1000) \<and>
   X86_FEATURE_PCID \<in> {X86_FEATURE_PCID} \<and>
   uint (3 :: u16) \<le> MAX_ASID_AVAILABLE \<and> take_bit 12 (0x1000 :: u64) = 0 \<and>
   take_bit 12 (snd (build_cr3 {X86_FEATURE_PCID} (\<lambda>pgd. pgd) (0x1000 :: u64) 3)) = 4"
  using build_cr3_tag [of "{}" "\<lambda>pgd. pgd" "0x1000 :: u64" 0]
    build_cr3_tag [of "{}" "\<lambda>pgd. pgd" "0x1000 :: u64" 3]
    build_cr3_tag [of "{X86_FEATURE_PCID}" "\<lambda>pgd. pgd" "0x1000 :: u64" 3]
  by (simp add: MAX_ASID_AVAILABLE_eq kern_pcid_def VM_WARN_ON_ONCE_def)

section \<open>Properties of the slot table\<close>

lemma ctxs_len: "length (Rep_ctxs_array a) = TLB_NR_DYN_ASIDS"
  using Rep_ctxs_array [of a] by simp

text \<open>
  C2: the per-CPU slot table \<^verbatim>\<open>ctxs\<close> is an array of exactly 6 entries
  (\<^verbatim>\<open>TLB_NR_DYN_ASIDS\<close>); an entry is exactly a pair of a context identifier and a
  generation (\<^verbatim>\<open>ctx_id\<close>, \<^verbatim>\<open>tlb_gen\<close>); and the ASID is the index: the subscripts that
  name an entry are exactly the ASIDs below 6, and a write at an ASID is read back at that
  ASID and leaves every other entry as it was.
\<close>

theorem ctxs_six_slots:
  "TLB_NR_DYN_ASIDS = 6 \<and>
   length (Rep_ctxs_array (ctxs ts)) = 6 \<and>
   bij (\<lambda>c :: tlb_context. (ctx_id c, tlb_gen c)) \<and>
   ((\<exists>c. ctxs_read (ctxs ts) asid = Some c) \<longleftrightarrow> asid < 6) \<and>
   (asid < 6 \<longrightarrow>
      (\<exists>a'. ctxs_write (ctxs ts) asid c = Some a' \<and>
            ctxs_read a' asid = Some c \<and>
            (\<forall>j. j \<noteq> asid \<longrightarrow> ctxs_read a' j = ctxs_read (ctxs ts) j)))"
proof (intro conjI impI)
  show "TLB_NR_DYN_ASIDS = 6" by (simp add: TLB_NR_DYN_ASIDS_def)
  show "length (Rep_ctxs_array (ctxs ts)) = 6"
    by (simp add: ctxs_len TLB_NR_DYN_ASIDS_def)
  show "bij (\<lambda>c :: tlb_context. (ctx_id c, tlb_gen c))"
  proof (rule bijI')
    fix x y :: tlb_context
    show "((ctx_id x, tlb_gen x) = (ctx_id y, tlb_gen y)) = (x = y)" by auto
  next
    fix p :: "u64 \<times> u64"
    show "\<exists>x :: tlb_context. p = (ctx_id x, tlb_gen x)"
      by (rule exI [of _ "\<lparr>ctx_id = fst p, tlb_gen = snd p\<rparr>"]) simp
  qed
  show "(\<exists>c. ctxs_read (ctxs ts) asid = Some c) \<longleftrightarrow> asid < 6"
    by (simp add: ctxs_read_def TLB_NR_DYN_ASIDS_def)
next
  assume a: "asid < 6"
  let ?xs = "(Rep_ctxs_array (ctxs ts))[asid := c]"
  have inv: "Rep_ctxs_array (Abs_ctxs_array ?xs) = ?xs"
    by (rule Abs_ctxs_array_inverse) (simp add: ctxs_len)
  show "\<exists>a'. ctxs_write (ctxs ts) asid c = Some a' \<and>
            ctxs_read a' asid = Some c \<and>
            (\<forall>j. j \<noteq> asid \<longrightarrow> ctxs_read a' j = ctxs_read (ctxs ts) j)"
    using a by (simp add: ctxs_write_def ctxs_read_def inv ctxs_len TLB_NR_DYN_ASIDS_def)
qed

theorem ctxs_six_slots_witness:
  "(2 :: nat) < 6 \<and>
   (\<exists>a'. ctxs_write (ctxs sample_tlb_state) 2 \<lparr>ctx_id = 9, tlb_gen = 4\<rparr> = Some a' \<and>
         ctxs_read a' 2 = Some \<lparr>ctx_id = 9, tlb_gen = 4\<rparr> \<and>
         ctxs_read a' 3 = ctxs_read (ctxs sample_tlb_state) 3) \<and>
   ctxs_read (ctxs sample_tlb_state) 5 = Some \<lparr>ctx_id = 0, tlb_gen = 0\<rparr> \<and>
   ctxs_read (ctxs sample_tlb_state) 6 = None"
proof -
  have r: "Rep_ctxs_array (ctxs sample_tlb_state) = replicate 6 \<lparr>ctx_id = 0, tlb_gen = 0\<rparr>"
    by (simp add: sample_tlb_state_def Abs_ctxs_array_inverse TLB_NR_DYN_ASIDS_def)
  have "ctxs_read (ctxs sample_tlb_state) 5 = Some \<lparr>ctx_id = 0, tlb_gen = 0\<rparr>"
    "ctxs_read (ctxs sample_tlb_state) 6 = None"
    by (simp_all add: ctxs_read_def r TLB_NR_DYN_ASIDS_def)
  then show ?thesis
    using ctxs_six_slots [of sample_tlb_state 2 "\<lparr>ctx_id = 9, tlb_gen = 4\<rparr>"]
    by auto
qed

section \<open>Properties of the CR4 shadow\<close>

lemma cr4_set_bits_unfold:
  "cr4_set_bits msk m =
     (if cr4_read_shadow m OR msk = cr4_read_shadow m then m
      else (native_write_cr4 (cr4_read_shadow m OR msk)
              (this_cpu_write_cr4 (cr4_read_shadow m OR msk) (m\<lparr>irqs_on := False\<rparr>)))
           \<lparr>irqs_on := irqs_on m\<rparr>)"
  by (simp add: cr4_set_bits_def local_irq_save_def local_irq_restore_def uu_cr4_set_def
      lockdep_assert_irqs_disabled_def VM_WARN_ON_ONCE_def cr4_read_shadow_def Let_def)

lemma cr4_clear_bits_unfold:
  "cr4_clear_bits msk m =
     (if cr4_read_shadow m AND NOT msk = cr4_read_shadow m then m
      else (native_write_cr4 (cr4_read_shadow m AND NOT msk)
              (this_cpu_write_cr4 (cr4_read_shadow m AND NOT msk) (m\<lparr>irqs_on := False\<rparr>)))
           \<lparr>irqs_on := irqs_on m\<rparr>)"
  by (simp add: cr4_clear_bits_def local_irq_save_def local_irq_restore_def uu_cr4_set_def
      lockdep_assert_irqs_disabled_def VM_WARN_ON_ONCE_def cr4_read_shadow_def Let_def)

lemma cr4_set_bits_shadow: "cr4_read_shadow (cr4_set_bits msk m) = cr4_read_shadow m OR msk"
  by (simp add: cr4_set_bits_unfold)
    (simp add: cr4_read_shadow_def this_cpu_write_cr4_def native_write_cr4_def)

lemma cr4_clear_bits_shadow:
  "cr4_read_shadow (cr4_clear_bits msk m) = cr4_read_shadow m AND NOT msk"
  by (simp add: cr4_clear_bits_unfold)
    (simp add: cr4_read_shadow_def this_cpu_write_cr4_def native_write_cr4_def)

lemma cr4_set_bits_trace:
  "hw_trace (cr4_set_bits msk m) =
     hw_trace m @ (if cr4_read_shadow m OR msk = cr4_read_shadow m then []
                   else [Write_CR4 (cr4_read_shadow m OR msk)])"
  by (simp add: cr4_set_bits_unfold)
    (simp add: cr4_read_shadow_def this_cpu_write_cr4_def native_write_cr4_def)

lemma cr4_clear_bits_trace:
  "hw_trace (cr4_clear_bits msk m) =
     hw_trace m @ (if cr4_read_shadow m AND NOT msk = cr4_read_shadow m then []
                   else [Write_CR4 (cr4_read_shadow m AND NOT msk)])"
  by (simp add: cr4_clear_bits_unfold)
    (simp add: cr4_read_shadow_def this_cpu_write_cr4_def native_write_cr4_def)

lemma cr4_set_bits_hw:
  "hw_cr4 m = cr4_read_shadow m \<Longrightarrow> hw_cr4 (cr4_set_bits msk m) = hw_cr4 m OR msk"
  by (simp add: cr4_set_bits_unfold)
    (simp add: cr4_read_shadow_def this_cpu_write_cr4_def native_write_cr4_def)

lemma cr4_clear_bits_hw:
  "hw_cr4 m = cr4_read_shadow m \<Longrightarrow> hw_cr4 (cr4_clear_bits msk m) = hw_cr4 m AND NOT msk"
  by (simp add: cr4_clear_bits_unfold)
    (simp add: cr4_read_shadow_def this_cpu_write_cr4_def native_write_cr4_def)

lemma cr4_bits_quiet:
  "warnings (cr4_set_bits msk m) = warnings m" "irqs_on (cr4_set_bits msk m) = irqs_on m"
  "warnings (cr4_clear_bits msk m) = warnings m" "irqs_on (cr4_clear_bits msk m) = irqs_on m"
  by (simp_all add: cr4_set_bits_unfold cr4_clear_bits_unfold)
    (simp_all add: cr4_read_shadow_def this_cpu_write_cr4_def native_write_cr4_def)

text \<open>
  C10: for every prior state and every mask, \<^verbatim>\<open>cr4_set_bits\<close> leaves the shadow at
  \<open>old OR mask\<close> and \<^verbatim>\<open>cr4_clear_bits\<close> at \<open>old AND NOT mask\<close>, so every bit outside the
  mask keeps its value; when the shadow agrees with the hardware register before the call,
  the register ends at the same value.  Both are idempotent on the whole machine state.
  When the operation would not change the shadow, the machine is left exactly as it
  was: no register write at all; otherwise there is exactly one write, of the new value.
\<close>

theorem cr4_set_clear_bits_frame:
  "cr4_read_shadow (cr4_set_bits msk m) = cr4_read_shadow m OR msk \<and>
   cr4_read_shadow (cr4_clear_bits msk m) = cr4_read_shadow m AND NOT msk \<and>
   (\<not> bit msk n \<longrightarrow>
      bit (cr4_read_shadow (cr4_set_bits msk m)) n = bit (cr4_read_shadow m) n \<and>
      bit (cr4_read_shadow (cr4_clear_bits msk m)) n = bit (cr4_read_shadow m) n) \<and>
   (hw_cr4 m = cr4_read_shadow m \<longrightarrow>
      hw_cr4 (cr4_set_bits msk m) = hw_cr4 m OR msk \<and>
      hw_cr4 (cr4_clear_bits msk m) = hw_cr4 m AND NOT msk) \<and>
   cr4_set_bits msk (cr4_set_bits msk m) = cr4_set_bits msk m \<and>
   cr4_clear_bits msk (cr4_clear_bits msk m) = cr4_clear_bits msk m \<and>
   (cr4_read_shadow m OR msk = cr4_read_shadow m \<longrightarrow> cr4_set_bits msk m = m) \<and>
   (cr4_read_shadow m AND NOT msk = cr4_read_shadow m \<longrightarrow> cr4_clear_bits msk m = m) \<and>
   hw_trace (cr4_set_bits msk m) =
     hw_trace m @ (if cr4_read_shadow m OR msk = cr4_read_shadow m then []
                   else [Write_CR4 (cr4_read_shadow m OR msk)]) \<and>
   hw_trace (cr4_clear_bits msk m) =
     hw_trace m @ (if cr4_read_shadow m AND NOT msk = cr4_read_shadow m then []
                   else [Write_CR4 (cr4_read_shadow m AND NOT msk)])"
proof (intro conjI impI)
  show "cr4_read_shadow (cr4_set_bits msk m) = cr4_read_shadow m OR msk"
    by (rule cr4_set_bits_shadow)
  show "cr4_read_shadow (cr4_clear_bits msk m) = cr4_read_shadow m AND NOT msk"
    by (rule cr4_clear_bits_shadow)
  show "cr4_set_bits msk (cr4_set_bits msk m) = cr4_set_bits msk m"
    by (subst cr4_set_bits_unfold) (simp add: cr4_set_bits_shadow or.assoc)
  show "cr4_clear_bits msk (cr4_clear_bits msk m) = cr4_clear_bits msk m"
    by (subst cr4_clear_bits_unfold) (simp add: cr4_clear_bits_shadow and.assoc)
  show "hw_trace (cr4_set_bits msk m) =
     hw_trace m @ (if cr4_read_shadow m OR msk = cr4_read_shadow m then []
                   else [Write_CR4 (cr4_read_shadow m OR msk)])"
    by (rule cr4_set_bits_trace)
  show "hw_trace (cr4_clear_bits msk m) =
     hw_trace m @ (if cr4_read_shadow m AND NOT msk = cr4_read_shadow m then []
                   else [Write_CR4 (cr4_read_shadow m AND NOT msk)])"
    by (rule cr4_clear_bits_trace)
next
  assume "\<not> bit msk n"
  then show "bit (cr4_read_shadow (cr4_set_bits msk m)) n = bit (cr4_read_shadow m) n"
    and "bit (cr4_read_shadow (cr4_clear_bits msk m)) n = bit (cr4_read_shadow m) n"
    using bit_imp_le_length [of "cr4_read_shadow m" n]
    by (auto simp add: cr4_set_bits_shadow cr4_clear_bits_shadow bit_or_iff bit_and_iff
        bit_not_iff)
next
  assume "hw_cr4 m = cr4_read_shadow m"
  then show "hw_cr4 (cr4_set_bits msk m) = hw_cr4 m OR msk"
    and "hw_cr4 (cr4_clear_bits msk m) = hw_cr4 m AND NOT msk"
    by (simp_all add: cr4_set_bits_hw cr4_clear_bits_hw)
next
  assume "cr4_read_shadow m OR msk = cr4_read_shadow m"
  then show "cr4_set_bits msk m = m" by (simp add: cr4_set_bits_unfold)
next
  assume "cr4_read_shadow m AND NOT msk = cr4_read_shadow m"
  then show "cr4_clear_bits msk m = m" by (simp add: cr4_clear_bits_unfold)
qed

theorem cr4_set_clear_bits_frame_witness:
  "\<not> bit (0x80 :: u64) 5 \<and>
   bit (cr4_read_shadow (cr4_set_bits 0x80 sample_machine)) 5
     = bit (cr4_read_shadow sample_machine) 5 \<and>
   hw_cr4 sample_machine = cr4_read_shadow sample_machine \<and>
   hw_cr4 (cr4_set_bits 0x80 sample_machine) = 0xA0 \<and>
   cr4_read_shadow sample_machine OR 0x20 = cr4_read_shadow sample_machine \<and>
   cr4_set_bits 0x20 sample_machine = sample_machine \<and>
   cr4_read_shadow sample_machine AND NOT 0x80 = cr4_read_shadow sample_machine \<and>
   cr4_clear_bits 0x80 sample_machine = sample_machine \<and>
   hw_trace (cr4_set_bits 0x80 sample_machine) = [Write_CR4 0xA0] \<and>
   hw_trace (cr4_clear_bits 0x20 sample_machine) = [Write_CR4 0]"
proof -
  have s: "cr4_read_shadow sample_machine = 0x20" "hw_cr4 sample_machine = 0x20"
    "hw_trace sample_machine = []"
    by (simp_all add: sample_machine_def sample_tlb_state_def cr4_read_shadow_def)
  show ?thesis
    using cr4_set_clear_bits_frame [of "0x80" sample_machine 5]
      cr4_set_clear_bits_frame [of "0x20" sample_machine 5]
    by (simp add: s)
qed

section \<open>Properties of the flushes of the calling CPU\<close>

lemma pge_toggled:
  "bit (v XOR X86_CR4_PGE) X86_CR4_PGE_BIT = (\<not> bit v X86_CR4_PGE_BIT)"
  by (simp add: X86_CR4_PGE_def X86_CR4_PGE_BIT_def bit_xor_iff bit_push_bit_iff)

lemma native_write_cr4_toggle_empties:
  "bit val X86_CR4_PGE_BIT \<noteq> bit (hw_cr4 m) X86_CR4_PGE_BIT \<Longrightarrow>
   hw_tlb (native_write_cr4 val m) = []"
  by (simp add: native_write_cr4_def)

lemma native_write_cr4_fields:
  "hw_cr4 (native_write_cr4 val m) = val"
  "hw_trace (native_write_cr4 val m) = hw_trace m @ [Write_CR4 val]"
  by (simp_all add: native_write_cr4_def)

lemma uu_native_flush_tlb_global_tlb: "hw_tlb (uu_native_flush_tlb_global caps m) = []"
proof (cases "static_cpu_has caps X86_FEATURE_INVPCID")
  case True
  then show ?thesis
    by (simp add: uu_native_flush_tlb_global_def invpcid_flush_all_def)
next
  case False
  let ?c = "cr4 (cpu_tlbstate m)"
  let ?m2 = "native_write_cr4 (?c XOR X86_CR4_PGE) (m\<lparr>irqs_on := False\<rparr>)"
  have "hw_tlb (native_write_cr4 ?c ?m2) = []"
    by (rule native_write_cr4_toggle_empties) (simp add: native_write_cr4_fields pge_toggled)
  with False show ?thesis
    by (simp add: uu_native_flush_tlb_global_def local_irq_save_def local_irq_restore_def
        Let_def)
qed

lemma uu_native_flush_tlb_global_trace:
  "hw_trace (uu_native_flush_tlb_global caps m) =
     hw_trace m @
       (if X86_FEATURE_INVPCID \<in> caps then [Invpcid_flush_all]
        else [Write_CR4 (cr4_read_shadow m XOR X86_CR4_PGE), Write_CR4 (cr4_read_shadow m)])"
  by (simp add: uu_native_flush_tlb_global_def local_irq_save_def local_irq_restore_def
      Let_def static_cpu_has_def invpcid_flush_all_def native_write_cr4_fields
      cr4_read_shadow_def)

lemma uu_native_flush_tlb_unfold:
  "uu_native_flush_tlb m =
     m\<lparr>hw_tlb := filter (cr3_keeps (hw_cr4 m) (hw_cr3 m)) (hw_tlb m),
       hw_trace := hw_trace m @ [Write_CR3 (hw_cr3 m)]\<rparr>"
  by (simp add: uu_native_flush_tlb_def preempt_disable_def preempt_enable_def
      native_write_cr3_def uu_native_read_cr3_def Let_def)

lemma uu_native_flush_tlb_tlb:
  assumes "\<not> bit (hw_cr4 m) X86_CR4_PGE_BIT" "\<not> bit (hw_cr4 m) X86_CR4_PCIDE_BIT"
    and "tlb_consistent m"
  shows "hw_tlb (uu_native_flush_tlb m) = []"
proof -
  have "\<not> cr3_keeps (hw_cr4 m) (hw_cr3 m) e" if "e \<in> set (hw_tlb m)" for e
    using that assms by (simp add: cr3_keeps_def tlb_consistent_def list_all_iff)
  then show ?thesis
    by (simp add: uu_native_flush_tlb_unfold filter_empty_conv)
qed

lemma tlb_consistent_preserved:
  assumes "tlb_consistent m"
  shows "tlb_consistent (native_write_cr4 val m)"
    and "tlb_consistent (native_write_cr3 val m)"
    and "tlb_consistent (invpcid_flush_all m)"
proof -
  show "tlb_consistent (native_write_cr4 val m)"
    using assms by (auto simp: tlb_consistent_def native_write_cr4_def)
  show "tlb_consistent (native_write_cr3 val m)"
    using assms by (auto simp: tlb_consistent_def native_write_cr3_def list_all_iff)
  show "tlb_consistent (invpcid_flush_all m)"
    using assms by (simp add: tlb_consistent_def invpcid_flush_all_def)
qed

text \<open>
  C9: with global-page support \<^verbatim>\<open>__flush_tlb_all\<close> is \<^verbatim>\<open>__flush_tlb_global\<close> (one
  INVPCID, or two CR4 writes that toggle PGE), and no cached translation is left on the
  calling CPU.  Without it \<^verbatim>\<open>__flush_tlb_all\<close> is \<^verbatim>\<open>__flush_tlb\<close> (CR3 written back); under
  the configuration rule "no PGE, no PCID", on a CPU whose CR4 enables only capabilities
  it has, again no cached translation is left.
\<close>

theorem uu_flush_tlb_all_flushes_everything:
  "(X86_FEATURE_PGE \<in> caps \<longrightarrow>
      uu_flush_tlb_all caps m = uu_flush_tlb_global caps m \<and>
      hw_trace (uu_flush_tlb_all caps m) =
        hw_trace m @
          (if X86_FEATURE_INVPCID \<in> caps then [Invpcid_flush_all]
           else [Write_CR4 (cr4_read_shadow m XOR X86_CR4_PGE), Write_CR4 (cr4_read_shadow m)]) \<and>
      hw_tlb (uu_flush_tlb_all caps m) = []) \<and>
   (X86_FEATURE_PGE \<notin> caps \<longrightarrow>
      uu_flush_tlb_all caps m = uu_flush_tlb m \<and>
      hw_trace (uu_flush_tlb_all caps m) = hw_trace m @ [Write_CR3 (hw_cr3 m)] \<and>
      (pcid_needs_pge caps \<and> cr4_within_caps caps m \<and> tlb_consistent m \<longrightarrow>
         hw_tlb (uu_flush_tlb_all caps m) = []))"
proof (intro conjI impI)
  assume pge: "X86_FEATURE_PGE \<in> caps"
  then show g: "uu_flush_tlb_all caps m = uu_flush_tlb_global caps m"
    by (simp add: uu_flush_tlb_all_def boot_cpu_has_def)
  show "hw_trace (uu_flush_tlb_all caps m) =
        hw_trace m @
          (if X86_FEATURE_INVPCID \<in> caps then [Invpcid_flush_all]
           else [Write_CR4 (cr4_read_shadow m XOR X86_CR4_PGE), Write_CR4 (cr4_read_shadow m)])"
    unfolding g uu_flush_tlb_global_def by (rule uu_native_flush_tlb_global_trace)
  show "hw_tlb (uu_flush_tlb_all caps m) = []"
    unfolding g uu_flush_tlb_global_def by (rule uu_native_flush_tlb_global_tlb)
next
  assume nopge: "X86_FEATURE_PGE \<notin> caps"
  then show f: "uu_flush_tlb_all caps m = uu_flush_tlb m"
    by (simp add: uu_flush_tlb_all_def boot_cpu_has_def)
  show "hw_trace (uu_flush_tlb_all caps m) = hw_trace m @ [Write_CR3 (hw_cr3 m)]"
    unfolding f uu_flush_tlb_def by (simp add: uu_native_flush_tlb_unfold)
  assume h: "pcid_needs_pge caps \<and> cr4_within_caps caps m \<and> tlb_consistent m"
  with nopge have "\<not> bit (hw_cr4 m) X86_CR4_PGE_BIT" "\<not> bit (hw_cr4 m) X86_CR4_PCIDE_BIT"
    by (auto simp: pcid_needs_pge_def cr4_within_caps_def)
  then show "hw_tlb (uu_flush_tlb_all caps m) = []"
    unfolding f uu_flush_tlb_def using h by (simp add: uu_native_flush_tlb_tlb)
qed

theorem uu_flush_tlb_all_flushes_everything_witness:
  "X86_FEATURE_PGE \<in> {X86_FEATURE_PCID, X86_FEATURE_PGE} \<and>
   hw_tlb sample_machine_pcid \<noteq> [] \<and>
   hw_tlb (uu_flush_tlb_all {X86_FEATURE_PCID, X86_FEATURE_PGE} sample_machine_pcid) = [] \<and>
   hw_trace (uu_flush_tlb_all {X86_FEATURE_PCID, X86_FEATURE_PGE} sample_machine_pcid) =
     [Write_CR4 0x20020, Write_CR4 0x200A0] \<and>
   X86_FEATURE_PGE \<notin> ({} :: x86_feature set) \<and>
   pcid_needs_pge {} \<and> cr4_within_caps {} sample_machine \<and> tlb_consistent sample_machine \<and>
   hw_tlb sample_machine \<noteq> [] \<and>
   hw_tlb (uu_flush_tlb_all {} sample_machine) = [] \<and>
   hw_trace (uu_flush_tlb_all {} sample_machine) = [Write_CR3 0x1000]"
proof -
  have p: "hw_tlb sample_machine_pcid \<noteq> []" "hw_trace sample_machine_pcid = []"
    "cr4_read_shadow sample_machine_pcid = 0x200A0"
    by (simp_all add: sample_machine_pcid_def cr4_read_shadow_def sample_tlb_state_def)
  have x: "(0x200A0 :: u64) XOR X86_CR4_PGE = 0x20020"
    by (simp add: X86_CR4_PGE_def X86_CR4_PGE_BIT_def)
  have q: "hw_tlb sample_machine \<noteq> []" "hw_trace sample_machine = []"
    "hw_cr3 sample_machine = 0x1000"
    by (simp_all add: sample_machine_def)
  have h: "pcid_needs_pge {}" "cr4_within_caps {} sample_machine" "tlb_consistent sample_machine"
    by (simp_all add: pcid_needs_pge_def cr4_within_caps_def tlb_consistent_def
        sample_machine_def X86_CR4_PCIDE_BIT_def X86_CR4_PGE_BIT_def)
  show ?thesis
    using uu_flush_tlb_all_flushes_everything
        [of "{X86_FEATURE_PCID, X86_FEATURE_PGE}" sample_machine_pcid]
      uu_flush_tlb_all_flushes_everything [of "{}" sample_machine]
    by (auto simp add: p x q h)
qed

text \<open>
  The configuration rule is needed, as the comment at the end of \<^verbatim>\<open>__flush_tlb_all\<close>
  says: with PCID but without PGE the translations of another tag stay cached.
\<close>

lemma uu_flush_tlb_all_pcid_without_pge:
  "\<not> pcid_needs_pge {X86_FEATURE_PCID} \<and>
   cr4_within_caps {X86_FEATURE_PCID} sample_machine_pcid_no_pge \<and>
   tlb_consistent sample_machine_pcid_no_pge \<and>
   hw_tlb (uu_flush_tlb_all {X86_FEATURE_PCID} sample_machine_pcid_no_pge) =
     [\<lparr>te_pcid = 2, te_page = 0x400000, te_global = False\<rparr>]"
  by (simp add: pcid_needs_pge_def cr4_within_caps_def tlb_consistent_def
      sample_machine_pcid_no_pge_def uu_flush_tlb_all_def boot_cpu_has_def uu_flush_tlb_def
      uu_native_flush_tlb_unfold cr3_keeps_def X86_CR4_PCIDE_BIT_def X86_CR4_PGE_BIT_def
      CR3_NOFLUSH_BIT_def)

section \<open>Properties of the flush requests\<close>

lemma PAGE_SIZE_eq: "PAGE_SIZE = 4096"
  by (simp add: PAGE_SIZE_def PAGE_SHIFT_def)

text \<open>
  C6: for every address space and address \<open>a\<close>, \<^verbatim>\<open>flush_tlb_page\<close> is the ranged flush
  \<^verbatim>\<open>flush_tlb_mm_range(vma->vm_mm, a, a + PAGE_SIZE, VM_NONE)\<close> and nothing else: the two
  are the same action on every state, whatever the ranged flush does.  It agrees with the
  specification's wording and with \<^verbatim>\<open>flush_tlb_range\<close> on an area without flags, and
  the range holds exactly one page of 4096 addresses unless it runs off the end of the
  address space.
\<close>

theorem flush_tlb_page_is_one_page_range:
  "flush_tlb_page mm_range vma a = mm_range (vm_mm vma) a (a + PAGE_SIZE) VM_NONE \<and>
   flush_tlb_page mm_range vma a = flush_page_spec mm_range (vm_mm vma) a \<and>
   flush_tlb_page mm_range vma a =
     flush_tlb_range mm_range (vma\<lparr>vm_flags := VM_NONE\<rparr>) a (a + PAGE_SIZE) \<and>
   (unat a + 4096 < 2 ^ 64 \<longrightarrow> unat (a + PAGE_SIZE) = unat a + 4096)"
proof (intro conjI impI)
  assume "unat a + 4096 < 2 ^ 64"
  then show "unat (a + PAGE_SIZE) = unat a + 4096"
    by (simp add: PAGE_SIZE_eq unat_word_ariths)
qed (simp_all add: flush_tlb_page_def flush_tlb_range_def flush_page_spec_def PAGE_SIZE_eq
    VM_NONE_def)

theorem flush_tlb_page_is_one_page_range_witness:
  "unat (0x7F0000 :: u64) + 4096 < 2 ^ 64 \<and>
   unat (0x7F0000 + PAGE_SIZE :: u64) = 0x7F1000 \<and>
   flush_tlb_page (\<lambda>mm s e f tr. tr @ [(mm, s, e, f)]) \<lparr>vm_mm = 4, vm_flags = 0x70\<rparr> 0x7F0000 []
     = [(4, 0x7F0000, 0x7F1000, 0)]"
  using flush_tlb_page_is_one_page_range
    [of "\<lambda>mm s e f tr. tr @ [(mm, s, e, f)]" "\<lparr>vm_mm = 4, vm_flags = 0x70\<rparr>" "0x7F0000"]
  by (simp add: PAGE_SIZE_eq VM_NONE_def)

lemma all_ones_u64: "(- 1 :: u64) = 0xFFFFFFFFFFFFFFFF"
  by simp

text \<open>
  C7: for every address space, \<^verbatim>\<open>flush_tlb_mm\<close> is
  \<^verbatim>\<open>flush_tlb_mm_range(mm, 0, TLB_FLUSH_ALL, 0)\<close>; the sentinel \<^verbatim>\<open>TLB_FLUSH_ALL\<close> is the
  all-ones address \<^verbatim>\<open>-1UL\<close>; a request for one address space whose end is the sentinel
  is a full flush of it, and no request whose end is the sentinel is a partial one.
\<close>

theorem flush_tlb_mm_is_full_range:
  "flush_tlb_mm mm_range mm = mm_range mm 0 TLB_FLUSH_ALL 0 \<and>
   flush_tlb_mm mm_range mm = flush_address_space_spec mm_range mm \<and>
   TLB_FLUSH_ALL = - 1 \<and>
   NOT TLB_FLUSH_ALL = 0 \<and>
   unat TLB_FLUSH_ALL = 2 ^ 64 - 1 \<and>
   flush_kind_of \<lparr>fti_mm = Some mm, fti_start = 0, fti_end = TLB_FLUSH_ALL, new_tlb_gen = g\<rparr>
     = Full_single_mm \<and>
   (fti_end info = TLB_FLUSH_ALL \<longrightarrow> flush_kind_of info \<noteq> Partial_single_mm)"
  by (simp add: flush_tlb_mm_def flush_address_space_spec_def TLB_FLUSH_ALL_def
      flush_kind_of_def unsigned_minus_1_eq_mask mask_eq_exp_minus_1 all_ones_u64
      split: option.splits)

theorem flush_tlb_mm_is_full_range_witness:
  "fti_end \<lparr>fti_mm = None, fti_start = 0, fti_end = TLB_FLUSH_ALL, new_tlb_gen = 0\<rparr>
     = TLB_FLUSH_ALL \<and>
   flush_kind_of \<lparr>fti_mm = None, fti_start = 0, fti_end = TLB_FLUSH_ALL, new_tlb_gen = 0\<rparr>
     \<noteq> Partial_single_mm \<and>
   flush_tlb_mm (\<lambda>mm s e f tr. tr @ [(mm, s, e, f)]) 4 []
     = [(4, 0, 0xFFFFFFFFFFFFFFFF, 0)]"
  using flush_tlb_mm_is_full_range
    [of "\<lambda>mm s e f tr. tr @ [(mm, s, e, f)]" 4 0
        "\<lparr>fti_mm = None, fti_start = 0, fti_end = TLB_FLUSH_ALL, new_tlb_gen = 0\<rparr>"]
  by (simp add: TLB_FLUSH_ALL_def all_ones_u64)

section \<open>Properties of the batched unmap\<close>

lemma arch_tlbbatch_add_mm_unfold:
  "arch_tlbbatch_add_mm mm w =
     w\<lparr>mms := (mms w)(mm := (mms w mm)\<lparr>context_tlb_gen := context_tlb_gen (mms w mm) + 1\<rparr>),
       batch := (batch w)\<lparr>cpumask := cpumask (batch w) \<union> mm_cpumask (mms w mm)\<rparr>\<rparr>"
  by (simp add: arch_tlbbatch_add_mm_def inc_mm_tlb_gen_eq cpumask_or_def)

lemma batch_adds_frame:
  "this_cpu (batch_adds ps w) = this_cpu w \<and> dispatched (batch_adds ps w) = dispatched w \<and>
   (\<forall>p. mm_cpumask (mms (batch_adds ps w) p) = mm_cpumask (mms w p))"
  by (induction ps arbitrary: w) (simp_all add: arch_tlbbatch_add_mm_unfold)

lemma batch_adds_cpumask:
  "cpumask (batch (batch_adds ps w)) =
     cpumask (batch w) \<union> (\<Union>p \<in> set ps. mm_cpumask (mms w p))"
proof (induction ps arbitrary: w)
  case Nil
  show ?case by simp
next
  case (Cons a ps)
  have "\<And>p. mm_cpumask (mms (arch_tlbbatch_add_mm a w) p) = mm_cpumask (mms w p)"
    by (simp add: arch_tlbbatch_add_mm_unfold)
  moreover have "cpumask (batch (arch_tlbbatch_add_mm a w)) =
      cpumask (batch w) \<union> mm_cpumask (mms w a)"
    by (simp add: arch_tlbbatch_add_mm_unfold)
  ultimately show ?case
    by (simp add: Cons.IH Un_assoc)
qed

lemma batch_adds_gen:
  "context_tlb_gen (mms (batch_adds ps w) p) =
     context_tlb_gen (mms w p) + of_nat (count_list ps p)"
  by (induction ps arbitrary: w) (simp_all add: arch_tlbbatch_add_mm_unfold add.assoc)

text \<open>
  C8: \<^verbatim>\<open>arch_tlbbatch_add_mm\<close> adds one to the generation of the address space (in 64-bit
  arithmetic), leaves its CPU mask and every other address space alone, and stores the
  union of the batch's mask and the address space's mask in the batch; it does not touch
  the calling CPU (no flush) and sends no dispatch.  Over any sequence of such calls the
  batch's mask only grows, to the union of the masks of the address spaces added, and
  each address space is bumped once per call on it.  The one combined dispatch, to the
  accumulated mask, is made by \<^verbatim>\<open>arch_tlbbatch_flush\<close>.
\<close>

theorem arch_tlbbatch_add_mm_accumulates:
  "context_tlb_gen (mms (arch_tlbbatch_add_mm mm w) mm) = context_tlb_gen (mms w mm) + 1 \<and>
   mm_cpumask (mms (arch_tlbbatch_add_mm mm w) mm) = mm_cpumask (mms w mm) \<and>
   (p \<noteq> mm \<longrightarrow> mms (arch_tlbbatch_add_mm mm w) p = mms w p) \<and>
   cpumask (batch (arch_tlbbatch_add_mm mm w)) = cpumask (batch w) \<union> mm_cpumask (mms w mm) \<and>
   this_cpu (arch_tlbbatch_add_mm mm w) = this_cpu w \<and>
   dispatched (arch_tlbbatch_add_mm mm w) = dispatched w \<and>
   cpumask (batch w) \<subseteq> cpumask (batch (batch_adds ps w)) \<and>
   cpumask (batch (batch_adds ps w)) =
     cpumask (batch w) \<union> (\<Union>q \<in> set ps. mm_cpumask (mms w q)) \<and>
   context_tlb_gen (mms (batch_adds ps w) p) =
     context_tlb_gen (mms w p) + of_nat (count_list ps p) \<and>
   this_cpu (batch_adds ps w) = this_cpu w \<and>
   dispatched (batch_adds ps w) = dispatched w \<and>
   dispatched (arch_tlbbatch_flush (batch_adds ps w)) =
     dispatched w @ [cpumask (batch w) \<union> (\<Union>q \<in> set ps. mm_cpumask (mms w q))]"
proof (intro conjI impI)
  show "cpumask (batch w) \<subseteq> cpumask (batch (batch_adds ps w))"
    by (simp add: batch_adds_cpumask)
  show "cpumask (batch (batch_adds ps w)) =
     cpumask (batch w) \<union> (\<Union>q \<in> set ps. mm_cpumask (mms w q))"
    by (rule batch_adds_cpumask)
  show "context_tlb_gen (mms (batch_adds ps w) p) =
     context_tlb_gen (mms w p) + of_nat (count_list ps p)"
    by (rule batch_adds_gen)
  show "this_cpu (batch_adds ps w) = this_cpu w" "dispatched (batch_adds ps w) = dispatched w"
    by (simp_all add: batch_adds_frame)
  show "dispatched (arch_tlbbatch_flush (batch_adds ps w)) =
     dispatched w @ [cpumask (batch w) \<union> (\<Union>q \<in> set ps. mm_cpumask (mms w q))]"
    by (simp add: arch_tlbbatch_flush_def batch_adds_frame batch_adds_cpumask)
qed (simp_all add: arch_tlbbatch_add_mm_unfold)

theorem arch_tlbbatch_add_mm_accumulates_witness:
  "(8 :: nat) \<noteq> 4 \<and>
   mms (arch_tlbbatch_add_mm 4 sample_world) 8 = mms sample_world 8 \<and>
   context_tlb_gen (mms (arch_tlbbatch_add_mm 4 sample_world) 4) = 2 \<and>
   cpumask (batch (arch_tlbbatch_add_mm 4 sample_world)) = {0, 1} \<and>
   cpumask (batch (batch_adds [4, 8, 4] sample_world)) = {0, 1, 2} \<and>
   context_tlb_gen (mms (batch_adds [4, 8, 4] sample_world) 4) = 3 \<and>
   dispatched (batch_adds [4, 8, 4] sample_world) = [] \<and>
   dispatched (arch_tlbbatch_flush (batch_adds [4, 8, 4] sample_world)) = [{0, 1, 2}]"
proof -
  have s: "mms sample_world 4 = \<lparr>context_tlb_gen = 1, mm_cpumask = {0, 1}\<rparr>"
    "mms sample_world 8 = \<lparr>context_tlb_gen = 7, mm_cpumask = {2}\<rparr>"
    "cpumask (batch sample_world) = {}" "dispatched sample_world = []"
    by (simp_all add: sample_world_def)
  show ?thesis
    using arch_tlbbatch_add_mm_accumulates [of 4 sample_world 8 "[4, 8, 4]"]
      arch_tlbbatch_add_mm_accumulates [of 4 sample_world 4 "[4, 8, 4]"]
    by (auto simp add: s)
qed

end
